theory Spec2Isabelle
  imports Complex_Main
begin

text \<open>
  A model of the quiz solver: the extraction of a question and its submit URL from a
  rendered page (\<^verbatim>\<open>_get_quiz_question\<close>), the submission of an answer
  (\<^verbatim>\<open>_submit_answer\<close>), the loop that drives a session (\<^verbatim>\<open>solve_quiz\<close>) and the
  endpoint that starts one (\<^verbatim>\<open>handle_quiz\<close>). The browser, the clock, the language
  model and the quiz server are inputs of the model; everything the Python code does with
  what they give is a definition here.
\<close>

section \<open>Text and regular expressions\<close>

text \<open>
  Python strings are modelled as Isabelle strings: one \<^typ>\<open>char\<close> per code point, which
  covers the code points below 256. On that range the only characters that
  \<^verbatim>\<open>str.lower()\<close> and \<^verbatim>\<open>re.IGNORECASE\<close> identify with an ASCII letter are the
  two cases of that letter, and \<^verbatim>\<open>\s\<close> is the set written out in \<open>is_space\<close>.
\<close>

definition py_lower :: "char \<Rightarrow> char" where
  "py_lower c =
     (let n = (of_char c :: nat)
      in if (65 \<le> n \<and> n \<le> 90) \<or> (192 \<le> n \<and> n \<le> 222 \<and> n \<noteq> 215)
         then char_of (n + 32) else c)"

definition lower :: "string \<Rightarrow> string" where
  "lower s = map py_lower s"

fun starts_with :: "string \<Rightarrow> string \<Rightarrow> bool" where
  "starts_with [] s = True"
| "starts_with (p # ps) [] = False"
| "starts_with (p # ps) (c # cs) = (p = c \<and> starts_with ps cs)"

text \<open>\<^verbatim>\<open>sub in s\<close> of Python.\<close>

fun contains :: "string \<Rightarrow> string \<Rightarrow> bool" where
  "contains sub [] = (sub = [])"
| "contains sub (c # cs) = (starts_with sub (c # cs) \<or> contains sub cs)"

text \<open>\<^verbatim>\<open>\s\<close> of a Python \<^verbatim>\<open>str\<close> pattern.\<close>

definition is_space :: "char \<Rightarrow> bool" where
  "is_space c = ((of_char c :: nat) \<in> {9, 10, 11, 12, 13, 28, 29, 30, 31, 32, 133, 160})"

text \<open>
  The patterns of the source use literals, an optional character, single characters of a
  class, greedy and lazy repetition of a class, and at most one capturing group. A pattern
  is the list of its tokens; \<open>GOpen\<close> and \<open>GClose\<close> are the parentheses of a group.
  With \<^verbatim>\<open>re.IGNORECASE\<close> (the flag \<open>ic\<close>) the letters of a literal match in either case;
  the classes of the patterns searched with the flag hold no letter.
\<close>

datatype atom =
    Lit string
  | Opt char
  | One "char \<Rightarrow> bool"
  | Plus "char \<Rightarrow> bool"
  | Star "char \<Rightarrow> bool"
  | LazyStar "char \<Rightarrow> bool"
  | GOpen
  | GClose

definition chr_eq :: "bool \<Rightarrow> char \<Rightarrow> char \<Rightarrow> bool" where
  "chr_eq ignorecase l c = (if ignorecase then py_lower l = py_lower c else l = c)"

fun lit_match :: "bool \<Rightarrow> string \<Rightarrow> string \<Rightarrow> string option" where
  "lit_match ic [] s = Some s"
| "lit_match ic (l # ls) [] = None"
| "lit_match ic (l # ls) (c # cs) = (if chr_eq ic l c then lit_match ic ls cs else None)"

text \<open>
  The ways a repetition can consume a run of class characters, as the text left over, in
  the order the backtracking matcher tries them: longest first when greedy, shortest first
  when lazy.
\<close>

fun greedy_splits :: "(char \<Rightarrow> bool) \<Rightarrow> string \<Rightarrow> string list" where
  "greedy_splits P [] = [[]]"
| "greedy_splits P (c # cs) = (if P c then greedy_splits P cs @ [c # cs] else [c # cs])"

fun lazy_splits :: "(char \<Rightarrow> bool) \<Rightarrow> string \<Rightarrow> string list" where
  "lazy_splits P [] = [[]]"
| "lazy_splits P (c # cs) = (c # cs) # (if P c then lazy_splits P cs else [])"

fun plus_splits :: "(char \<Rightarrow> bool) \<Rightarrow> string \<Rightarrow> string list" where
  "plus_splits P [] = []"
| "plus_splits P (c # cs) = (if P c then greedy_splits P cs else [])"

text \<open>
  \<open>run ic p s mark caps\<close>: every way pattern \<open>p\<close> matches a prefix of \<open>s\<close>, in the
  matcher's order of preference, as the pair of the text left over and the groups
  captured; \<open>mark\<close> is the text that was left when the open group started.
\<close>

fun run :: "bool \<Rightarrow> atom list \<Rightarrow> string \<Rightarrow> string \<Rightarrow> string list \<Rightarrow> (string \<times> string list) list" where
  "run ic [] s mark caps = [(s, caps)]"
| "run ic (Lit l # p) s mark caps =
     (case lit_match ic l s of None \<Rightarrow> [] | Some r \<Rightarrow> run ic p r mark caps)"
| "run ic (Opt x # p) s mark caps =
     (case s of
        [] \<Rightarrow> []
      | c # cs \<Rightarrow> if chr_eq ic x c then run ic p cs mark caps else [])
     @ run ic p s mark caps"
| "run ic (One P # p) s mark caps =
     (case s of
        [] \<Rightarrow> []
      | c # cs \<Rightarrow> if P c then run ic p cs mark caps else [])"
| "run ic (Plus P # p) s mark caps =
     concat (map (\<lambda>r. run ic p r mark caps) (plus_splits P s))"
| "run ic (Star P # p) s mark caps =
     concat (map (\<lambda>r. run ic p r mark caps) (greedy_splits P s))"
| "run ic (LazyStar P # p) s mark caps =
     concat (map (\<lambda>r. run ic p r mark caps) (lazy_splits P s))"
| "run ic (GOpen # p) s mark caps = run ic p s s caps"
| "run ic (GClose # p) s mark caps =
     run ic p s mark (caps @ [take (length mark - length s) mark])"

text \<open>A match object: \<^verbatim>\<open>group(0)\<close> and the captured groups.\<close>

record match =
  whole :: string
  groups :: "string list"

definition match_at :: "bool \<Rightarrow> atom list \<Rightarrow> string \<Rightarrow> match option" where
  "match_at ic p s =
     (case run ic p s s [] of
        [] \<Rightarrow> None
      | (r, caps) # _ \<Rightarrow> Some \<lparr>whole = take (length s - length r) s, groups = caps\<rparr>)"

text \<open>\<^verbatim>\<open>re.search\<close>: the match at the leftmost position that has one.\<close>

fun re_search :: "bool \<Rightarrow> atom list \<Rightarrow> string \<Rightarrow> match option" where
  "re_search ic p [] = match_at ic p []"
| "re_search ic p (c # cs) =
     (case match_at ic p (c # cs) of
        Some m \<Rightarrow> Some m
      | None \<Rightarrow> re_search ic p cs)"

datatype exc =
    ClientError string
  | AttributeError string
  | IndexError string
  | OtherException string

text \<open>\<^verbatim>\<open>str(e)\<close>.\<close>

fun exc_str :: "exc \<Rightarrow> string" where
  "exc_str (ClientError s) = s"
| "exc_str (AttributeError s) = s"
| "exc_str (IndexError s) = s"
| "exc_str (OtherException s) = s"

text \<open>
  \<^verbatim>\<open>Match.group(i)\<close> raises \<^verbatim>\<open>IndexError\<close> for a group the pattern does not have;
  \<^verbatim>\<open>Match.lastindex\<close> is \<^verbatim>\<open>None\<close> when no group matched and the index of the last
  matched group otherwise, so it is never 0.
\<close>

definition group :: "match \<Rightarrow> nat \<Rightarrow> exc + string" where
  "group m i =
     (if i = 0 then Inr (whole m)
      else if i \<le> length (groups m) then Inr (groups m ! (i - 1))
      else Inl (IndexError ''no such group''))"

definition lastindex :: "match \<Rightarrow> nat option" where
  "lastindex m = (if groups m = [] then None else Some (length (groups m)))"

section \<open>Question extraction\<close>

text \<open>The character classes of the patterns in \<^verbatim>\<open>_get_quiz_question\<close>.\<close>

definition url_char :: "char \<Rightarrow> bool" where
  "url_char c = (\<not> is_space c \<and> c \<notin> {CHR ''<'', CHR ''>'', CHR 0x22, CHR 0x27, CHR '')''})"

definition not_backtick :: "char \<Rightarrow> bool" where
  "not_backtick c = (c \<noteq> CHR 0x60)"

definition quote_char :: "char \<Rightarrow> bool" where
  "quote_char c = (c \<in> {CHR 0x22, CHR 0x27})"

definition not_quote :: "char \<Rightarrow> bool" where
  "not_quote c = (\<not> quote_char c)"

definition colon_or_space :: "char \<Rightarrow> bool" where
  "colon_or_space c = (c = CHR '':'' \<or> is_space c)"

definition b64_char :: "char \<Rightarrow> bool" where
  "b64_char c =
     (let n = (of_char c :: nat)
      in (65 \<le> n \<and> n \<le> 90) \<or> (97 \<le> n \<and> n \<le> 122) \<or> (48 \<le> n \<and> n \<le> 57)
         \<or> c \<in> {CHR ''+'', CHR ''/'', CHR ''=''})"

definition any_char :: "char \<Rightarrow> bool" where
  "any_char c = (c \<noteq> CHR 0x0A)"

definition not_slash :: "char \<Rightarrow> bool" where
  "not_slash c = (c \<noteq> CHR ''/'')"

text \<open>
  \<^verbatim>\<open>atob\(`([^`]+)`\)\<close>, \<^verbatim>\<open>atob\(["\']([^"\']+)["\']\)\<close> and
  \<^verbatim>\<open>base64[:\s]+([A-Za-z0-9+/=]+)\<close>, searched case-sensitively.
\<close>

definition decode_patterns :: "atom list list" where
  "decode_patterns =
     [ [Lit ''atob('', One (\<lambda>c. c = CHR 0x60), GOpen, Plus not_backtick, GClose,
        One (\<lambda>c. c = CHR 0x60), Lit '')''],
       [Lit ''atob('', One quote_char, GOpen, Plus not_quote, GClose, One quote_char, Lit '')''],
       [Lit ''base64'', Plus colon_or_space, GOpen, Plus b64_char, GClose] ]"

text \<open>
  \<^verbatim>\<open>https?://[^\s<>"\'\)]+/submit[^\s<>"\'\)]*\<close>,
  \<^verbatim>\<open>Post.*?to\s+(https?://[^\s<>"\'\)]+)\<close>,
  \<^verbatim>\<open>submit.*?to\s+(https?://[^\s<>"\'\)]+)\<close> and
  \<^verbatim>\<open>https?://[^\s<>"\'\)]+/submit\<close>, searched with \<^verbatim>\<open>re.IGNORECASE\<close>.
\<close>

definition submit_patterns :: "atom list list" where
  "submit_patterns =
     [ [Lit ''http'', Opt (CHR ''s''), Lit ''://'', Plus url_char, Lit ''/submit'', Star url_char],
       [Lit ''Post'', LazyStar any_char, Lit ''to'', Plus is_space,
        GOpen, Lit ''http'', Opt (CHR ''s''), Lit ''://'', Plus url_char, GClose],
       [Lit ''submit'', LazyStar any_char, Lit ''to'', Plus is_space,
        GOpen, Lit ''http'', Opt (CHR ''s''), Lit ''://'', Plus url_char, GClose],
       [Lit ''http'', Opt (CHR ''s''), Lit ''://'', Plus url_char, Lit ''/submit''] ]"

text \<open>\<^verbatim>\<open>(https?://[^/]+)\<close>, searched case-sensitively in the page's URL.\<close>

definition origin_pattern :: "atom list" where
  "origin_pattern = [GOpen, Lit ''http'', Opt (CHR ''s''), Lit ''://'', Plus not_slash, GClose]"

text \<open>
  The body of the decoding loop for one pattern. \<open>dec\<close> stands for
  \<^verbatim>\<open>base64.b64decode(x).decode('utf-8')\<close> of the Python library: \<open>None\<close> when it
  raises. The result is the decoded text, or \<open>None\<close> when the pattern does not match
  or the \<^verbatim>\<open>try\<close> block raises, after which the loop goes on to the next pattern.
\<close>

definition try_decode :: "(string \<Rightarrow> string option) \<Rightarrow> atom list \<Rightarrow> string \<Rightarrow> string option" where
  "try_decode dec pattern result_content =
     (case re_search False pattern result_content of
        None \<Rightarrow> None
      | Some base64_match \<Rightarrow>
          (case group base64_match 1 of
             Inl e \<Rightarrow> None
           | Inr payload \<Rightarrow> dec payload))"

text \<open>The loop: the first pattern that gives a decoded text ends it.\<close>

fun decode_loop :: "(string \<Rightarrow> string option) \<Rightarrow> atom list list \<Rightarrow> string \<Rightarrow> string" where
  "decode_loop dec [] result_content = result_content"
| "decode_loop dec (pattern # patterns) result_content =
     (case try_decode dec pattern result_content of
        None \<Rightarrow> decode_loop dec patterns result_content
      | Some decoded \<Rightarrow> decoded)"

definition decode_content :: "(string \<Rightarrow> string option) \<Rightarrow> string \<Rightarrow> string" where
  "decode_content dec result_content =
     (if contains ''atob'' result_content \<or> contains ''base64'' (lower result_content)
      then decode_loop dec decode_patterns result_content
      else result_content)"

text \<open>
  The scan for the submit URL: the first pattern that matches decides, and the URL is
  \<^verbatim>\<open>group(0) if lastindex == 0 else group(1)\<close>, which may raise.
\<close>

fun find_submit_url :: "atom list list \<Rightarrow> string \<Rightarrow> exc + string option" where
  "find_submit_url [] result_content = Inr None"
| "find_submit_url (pattern # patterns) result_content =
     (case re_search True pattern result_content of
        None \<Rightarrow> find_submit_url patterns result_content
      | Some submit_url_match \<Rightarrow>
          (case (if lastindex submit_url_match = Some 0 then group submit_url_match 0
                 else group submit_url_match 1) of
             Inl e \<Rightarrow> Inl e
           | Inr u \<Rightarrow> Inr (Some u)))"

definition fallback_submit_url :: string where
  "fallback_submit_url = ''https://tds-llm-analysis.s-anand.net/submit''"

definition default_submit_url :: "string \<Rightarrow> exc + string" where
  "default_submit_url url =
     (case re_search False origin_pattern url of
        Some origin_match \<Rightarrow>
          (case group origin_match 1 of Inl e \<Rightarrow> Inl e | Inr origin \<Rightarrow> Inr (origin @ ''/submit''))
      | None \<Rightarrow> Inr fallback_submit_url)"

text \<open>
  What the browser gives for a navigation: \<^verbatim>\<open>page.goto\<close> raises, or the page renders
  with the inner HTML of \<^verbatim>\<open>#result\<close> (empty when there is no such element) and the
  body's inner text (\<open>None\<close> when evaluating it raises).
\<close>

datatype page_load = GotoFails | Rendered string "string option"

record quiz_data =
  question :: string
  submit_url :: string
  url :: string

text \<open>
  The second half of \<^verbatim>\<open>_get_quiz_question\<close>, from the content after decoding: the
  submit URL found by pattern, or else the default one, and the content as the question.
  Any exception inside \<^verbatim>\<open>_get_quiz_question\<close> is caught and gives \<^verbatim>\<open>None\<close>.
\<close>

definition extract_from :: "string \<Rightarrow> string \<Rightarrow> quiz_data option" where
  "extract_from result_content page_url =
     (case find_submit_url submit_patterns result_content of
        Inl e \<Rightarrow> None
      | Inr found \<Rightarrow>
          (case (case found of
                   None \<Rightarrow> default_submit_url page_url
                 | Some u \<Rightarrow> if u \<noteq> [] then Inr u else default_submit_url page_url) of
             Inl e \<Rightarrow> None
           | Inr u \<Rightarrow> Some \<lparr>question = result_content, submit_url = u, url = page_url\<rparr>))"

text \<open>
  The content the page gives: the inner HTML of \<^verbatim>\<open>#result\<close> or, when that is empty,
  the body's inner text; \<open>None\<close> when the navigation or the evaluation raises.
\<close>

definition page_content :: "page_load \<Rightarrow> string option" where
  "page_content load =
     (case load of
        GotoFails \<Rightarrow> None
      | Rendered result_html body_text \<Rightarrow> if result_html \<noteq> [] then Some result_html else body_text)"

definition get_quiz_question :: "(string \<Rightarrow> string option) \<Rightarrow> page_load \<Rightarrow> string \<Rightarrow> quiz_data option" where
  "get_quiz_question dec load page_url =
     (case page_content load of
        None \<Rightarrow> None
      | Some raw_content \<Rightarrow> extract_from (decode_content dec raw_content) page_url)"

section \<open>Verdicts and submission\<close>

text \<open>
  A value parsed from JSON by Python (\<^verbatim>\<open>json.loads\<close> also reads \<^verbatim>\<open>NaN\<close> and the two
  infinities), which is also what the solver's answer is. A \<^verbatim>\<open>dict\<close> is the list of
  its items.
\<close>

datatype json =
    JNull
  | JBool bool
  | JInt int
  | JFloat real
  | JNaN
  | JInfinity bool
  | JStr string
  | JArr "json list"
  | JObj "(string \<times> json) list"

text \<open>Python's truth value of an object.\<close>

fun truthy :: "json \<Rightarrow> bool" where
  "truthy JNull = False"
| "truthy (JBool b) = b"
| "truthy (JInt i) = (i \<noteq> 0)"
| "truthy (JFloat r) = (r \<noteq> 0)"
| "truthy JNaN = True"
| "truthy (JInfinity negative) = True"
| "truthy (JStr s) = (s \<noteq> [])"
| "truthy (JArr xs) = (xs \<noteq> [])"
| "truthy (JObj kvs) = (kvs \<noteq> [])"

fun type_name :: "json \<Rightarrow> string" where
  "type_name JNull = ''NoneType''"
| "type_name (JBool b) = ''bool''"
| "type_name (JInt i) = ''int''"
| "type_name (JFloat r) = ''float''"
| "type_name JNaN = ''float''"
| "type_name (JInfinity negative) = ''float''"
| "type_name (JStr s) = ''str''"
| "type_name (JArr xs) = ''list''"
| "type_name (JObj kvs) = ''dict''"

text \<open>
  \<^verbatim>\<open>v.get(k)\<close>: on a \<^verbatim>\<open>dict\<close> the value or \<^verbatim>\<open>None\<close>; any other JSON value has no
  \<^verbatim>\<open>get\<close> and the call raises \<^verbatim>\<open>AttributeError\<close>.
\<close>

definition dict_get :: "(string \<times> json) list \<Rightarrow> string \<Rightarrow> json" where
  "dict_get kvs k = (case map_of kvs k of None \<Rightarrow> JNull | Some v \<Rightarrow> v)"

fun py_get :: "json \<Rightarrow> string \<Rightarrow> exc + json" where
  "py_get (JObj kvs) k = Inr (dict_get kvs k)"
| "py_get v k =
     Inl (AttributeError ([CHR 0x27] @ type_name v @ [CHR 0x27] @ '' object has no attribute ''
            @ [CHR 0x27] @ ''get'' @ [CHR 0x27]))"

record solver =
  email :: string
  secret :: string
  timeout_seconds :: int

text \<open>
  What the POST gives: the request raises (\<^verbatim>\<open>aiohttp.ClientError\<close> or another
  exception, a timeout among them), or a response arrives, with the outcome of
  \<^verbatim>\<open>response.json()\<close> (\<open>None\<close> when it raises) and of \<^verbatim>\<open>response.text()\<close>.
\<close>

datatype post_outcome =
    PostRaises exc
  | Response "json option" "exc + string"

definition failure_verdict :: "string \<Rightarrow> json" where
  "failure_verdict reason = JObj [(''correct'', JBool False), (''reason'', JStr reason)]"

fun on_submit_exception :: "exc \<Rightarrow> json" where
  "on_submit_exception (ClientError s) = failure_verdict (''Network error: '' @ s)"
| "on_submit_exception e = failure_verdict (''Failed to submit: '' @ exc_str e)"

text \<open>
  \<^verbatim>\<open>_submit_answer\<close>: the payload, and what becomes of the outcome of the POST. Every
  exception inside the \<^verbatim>\<open>try\<close> is handled; a response that parses is returned as it is.
\<close>

definition make_payload :: "solver \<Rightarrow> json \<Rightarrow> json \<Rightarrow> json" where
  "make_payload sv quiz_url answer =
     JObj [(''email'', JStr (email sv)), (''secret'', JStr (secret sv)),
           (''url'', quiz_url), (''answer'', answer)]"

definition submit_answer :: "post_outcome \<Rightarrow> json" where
  "submit_answer outcome =
     (case outcome of
        PostRaises e \<Rightarrow> on_submit_exception e
      | Response parsed body \<Rightarrow>
          (case parsed of
             Some result \<Rightarrow> result
           | None \<Rightarrow>
               (case body of
                  Inl e \<Rightarrow> on_submit_exception e
                | Inr text \<Rightarrow>
                    failure_verdict (''Invalid response from submit endpoint: '' @ take 200 text))))"

section \<open>The orchestrator\<close>

text \<open>
  The world outside \<^verbatim>\<open>solve_quiz\<close>. The \<open>n\<close>-th pass of the outer loop reads the
  clock (\<open>clock_elapsed env n\<close> is the elapsed time it computes, in seconds) and navigates;
  its \<open>k\<close>-th attempt asks the solver and posts the answer. \<open>solver_init\<close> is the
  exception, if any, that constructing the \<^verbatim>\<open>QuizSolver\<close> raises (its \<^verbatim>\<open>LLMAgent\<close>
  builds the language model's client, which refuses a missing API key). The trace is not in the
  source: it records, in their order, the navigations, the calls of the solver and the
  submissions that a run makes.
\<close>

datatype launch_outcome = LaunchFails exc | SetupFails exc | Launched

record env =
  solver_init :: "exc option"
  browser_launch :: launch_outcome
  clock_elapsed :: "nat \<Rightarrow> real"
  page_goto :: "nat \<Rightarrow> string \<Rightarrow> page_load"
  b64_utf8 :: "string \<Rightarrow> string option"
  llm_solve :: "nat \<Rightarrow> nat \<Rightarrow> quiz_data \<Rightarrow> exc + json"
  http_post :: "nat \<Rightarrow> nat \<Rightarrow> string \<Rightarrow> json \<Rightarrow> post_outcome"
  browser_close :: "exc option"

datatype event =
    Navigated json
  | Solved quiz_data
  | Submitted string json

definition max_retries :: nat where
  "max_retries = 2"

text \<open>
  One pass of the inner loop up to the verdict: \<^verbatim>\<open>_solve_question\<close>, which may
  raise, then \<^verbatim>\<open>_submit_answer\<close>, with the events it adds to the trace.
\<close>

definition attempt :: "solver \<Rightarrow> env \<Rightarrow> nat \<Rightarrow> nat \<Rightarrow> json \<Rightarrow> quiz_data \<Rightarrow> event list \<times> (exc + json)" where
  "attempt sv env n k current_url qd =
     (case llm_solve env n k qd of
        Inl e \<Rightarrow> ([Solved qd], Inl e)
      | Inr answer \<Rightarrow>
          ([Solved qd, Submitted (submit_url qd) (make_payload sv current_url answer)],
           Inr (submit_answer (http_post env n k (submit_url qd)
                                 (make_payload sv current_url answer)))))"

text \<open>
  The inner \<^verbatim>\<open>while retry_count <= max_retries\<close> loop. It gives the trace, and either the
  exception that left the loop or the last \<^verbatim>\<open>result\<close> (Python's \<^verbatim>\<open>None\<close> before the
  first attempt) with the final \<^verbatim>\<open>retry_count\<close>.
\<close>

function retry_loop ::
  "solver \<Rightarrow> env \<Rightarrow> nat \<Rightarrow> json \<Rightarrow> quiz_data \<Rightarrow> json \<Rightarrow> nat \<Rightarrow> event list
   \<Rightarrow> event list \<times> (exc + json \<times> nat)" where
  "retry_loop sv env n current_url qd result retry_count trace =
     (if retry_count \<le> max_retries then
        (case attempt sv env n retry_count current_url qd of
           (evs, Inl e) \<Rightarrow> (trace @ evs, Inl e)
         | (evs, Inr verdict) \<Rightarrow>
             (case py_get verdict ''correct'' of
                Inl e \<Rightarrow> (trace @ evs, Inl e)
              | Inr c \<Rightarrow>
                  if truthy c then (trace @ evs, Inr (verdict, retry_count))
                  else
                    (case py_get verdict ''url'' of
                       Inl e \<Rightarrow> (trace @ evs, Inl e)
                     | Inr u \<Rightarrow>
                         if truthy u then (trace @ evs, Inr (verdict, retry_count + 1))
                         else retry_loop sv env n current_url qd verdict
                                (retry_count + 1) (trace @ evs))))
      else (trace, Inr (result, retry_count)))"
  by pat_completeness auto
termination
  by (relation "measure (\<lambda>(sv, env, n, current_url, qd, result, retry_count, trace).
                  Suc max_retries - retry_count)") auto

declare retry_loop.simps [simp del]

text \<open>
  The \<^verbatim>\<open>Handle result\<close> block after the inner loop: the next value of
  \<^verbatim>\<open>current_url\<close>.
\<close>

definition handle_result :: "json \<Rightarrow> exc + json" where
  "handle_result result =
     (case py_get result ''correct'' of
        Inl e \<Rightarrow> Inl e
      | Inr c \<Rightarrow>
          if truthy c then py_get result ''url''
          else (case py_get result ''url'' of
                  Inl e \<Rightarrow> Inl e
                | Inr u \<Rightarrow> if truthy u then Inr u else Inr JNull))"

type_synonym dict = "(string \<times> string) list"

definition timeout_result :: dict where
  "timeout_result =
     [(''error'', ''Timeout exceeded''), (''reason'', ''Quiz solving took longer than 3 minutes'')]"

definition parse_failure_result :: dict where
  "parse_failure_result =
     [(''error'', ''Failed to parse quiz''),
      (''reason'', ''Could not extract quiz question from page'')]"

definition no_submit_url_result :: dict where
  "no_submit_url_result =
     [(''error'', ''No submit URL found''), (''reason'', ''Quiz page did not contain submit URL'')]"

definition completed_result :: dict where
  "completed_result = [(''status'', ''completed''), (''message'', ''Quiz solving completed'')]"

text \<open>
  Navigation and extraction of the \<open>n\<close>-th pass. A \<^verbatim>\<open>current_url\<close> that is not a string
  (the server's verdict may carry any JSON value) makes \<^verbatim>\<open>page.goto\<close> raise.
\<close>

definition fetch_question :: "env \<Rightarrow> nat \<Rightarrow> json \<Rightarrow> quiz_data option" where
  "fetch_question env n current_url =
     (case current_url of
        JStr u \<Rightarrow> get_quiz_question (b64_utf8 env) (page_goto env n u) u
      | _ \<Rightarrow> None)"

text \<open>
  The outer \<^verbatim>\<open>while current_url\<close> loop, at its \<open>n\<close>-th pass. The loop ends only when
  the server stops giving a next URL, an error is hit or the clock passes the timeout, so
  it is given fuel, the number of passes through the loop body it may make: \<open>None\<close> is
  a run that needs more.
\<close>

fun quiz_loop ::
  "nat \<Rightarrow> solver \<Rightarrow> env \<Rightarrow> nat \<Rightarrow> json \<Rightarrow> event list \<Rightarrow> (event list \<times> (exc + dict)) option" where
  "quiz_loop 0 sv env n current_url trace =
     (if \<not> truthy current_url then Some (trace, Inr completed_result) else None)"
| "quiz_loop (Suc fuel) sv env n current_url trace =
     (if \<not> truthy current_url then Some (trace, Inr completed_result)
      else if clock_elapsed env n > real_of_int (timeout_seconds sv) then
        Some (trace, Inr timeout_result)
      else
        (case fetch_question env n current_url of
           None \<Rightarrow> Some (trace @ [Navigated current_url], Inr parse_failure_result)
         | Some qd \<Rightarrow>
             if submit_url qd = [] then
               Some (trace @ [Navigated current_url], Inr no_submit_url_result)
             else
               (case retry_loop sv env n current_url qd JNull 0 (trace @ [Navigated current_url]) of
                  (trace', Inl e) \<Rightarrow> Some (trace', Inl e)
                | (trace', Inr (result, retry_count)) \<Rightarrow>
                    (case handle_result result of
                       Inl e \<Rightarrow> Some (trace', Inl e)
                     | Inr next_url \<Rightarrow> quiz_loop fuel sv env (Suc n) next_url trace'))))"

text \<open>
  \<^verbatim>\<open>solve_quiz\<close>: the browser is launched, the loop runs, and the \<^verbatim>\<open>finally\<close> block
  closes the browser when there is one; an exception raised there replaces the outcome.
\<close>

definition solve_quiz :: "nat \<Rightarrow> solver \<Rightarrow> env \<Rightarrow> string \<Rightarrow> (event list \<times> (exc + dict)) option" where
  "solve_quiz fuel sv env initial_url =
     (case browser_launch env of
        LaunchFails e \<Rightarrow> Some ([], Inl e)
      | SetupFails e \<Rightarrow>
          Some ([], Inl (case browser_close env of None \<Rightarrow> e | Some e' \<Rightarrow> e'))
      | Launched \<Rightarrow>
          (case quiz_loop fuel sv env 0 (JStr initial_url) [] of
             None \<Rightarrow> None
           | Some (trace, outcome) \<Rightarrow>
               Some (trace, case browser_close env of None \<Rightarrow> outcome | Some e' \<Rightarrow> Inl e')))"

section \<open>The HTTP endpoint\<close>

text \<open>
  The body of \<^verbatim>\<open>POST /quiz\<close> after \<^verbatim>\<open>request.json()\<close> and \<^verbatim>\<open>QuizRequest(**body)\<close>:
  not JSON, JSON that is not an object, an object that fails validation, or a request
  with its \<^verbatim>\<open>email\<close>, \<^verbatim>\<open>secret\<close> and \<^verbatim>\<open>url\<close>. An \<^verbatim>\<open>HTTPException\<close> is
  answered with its status and detail. The solver is constructed outside the inner
  \<^verbatim>\<open>try\<close>: an exception there reaches the outer handler, as one of
  \<^verbatim>\<open>QuizRequest(**body)\<close> that is not a validation error does.
\<close>

datatype request =
    InvalidJson
  | NotAnObject
  | ValidationFails string
  | QuizRequest string string string

datatype response =
    JSONResponse dict nat
  | HTTPException nat string

record config =
  SECRET :: string
  EMAIL :: string

definition TIMEOUT_SECONDS :: int where
  "TIMEOUT_SECONDS = 180"

definition handle_quiz :: "nat \<Rightarrow> config \<Rightarrow> env \<Rightarrow> request \<Rightarrow> response option" where
  "handle_quiz fuel cfg env req =
     (case req of
        InvalidJson \<Rightarrow> Some (HTTPException 400 ''Invalid JSON payload'')
      | NotAnObject \<Rightarrow> Some (HTTPException 500 ''Internal server error'')
      | ValidationFails e \<Rightarrow> Some (HTTPException 400 (''Invalid request: '' @ e))
      | QuizRequest req_email req_secret req_url \<Rightarrow>
          if req_secret \<noteq> SECRET cfg then Some (HTTPException 403 ''Invalid secret'')
          else if req_email \<noteq> EMAIL cfg then Some (HTTPException 403 ''Email mismatch'')
          else
            (case solver_init env of
               Some e \<Rightarrow> Some (HTTPException 500 ''Internal server error'')
             | None \<Rightarrow>
                 (case solve_quiz fuel
                         \<lparr>email = req_email, secret = req_secret,
                            timeout_seconds = TIMEOUT_SECONDS\<rparr>
                         env req_url of
                    None \<Rightarrow> None
                  | Some (trace, Inr result) \<Rightarrow> Some (JSONResponse result 200)
                  | Some (trace, Inl e) \<Rightarrow>
                      Some (JSONResponse
                              [(''error'', ''Failed to solve quiz''), (''reason'', exc_str e)]
                              500))))"

section \<open>Sample runs\<close>

text \<open>
  Concrete inputs on which the theorems below are exercised. \<open>sample_b64\<close> is
  \<^verbatim>\<open>base64.b64decode(x).decode('utf-8')\<close> on the payloads the samples use: the first two
  decode, \<^verbatim>\<open>payload\<close> is no base64 text (incorrect padding) and \<^verbatim>\<open>/w==\<close> decodes to
  the byte 0xff, which is no UTF-8 text.
\<close>

definition sample_b64 :: "string \<Rightarrow> string option" where
  "sample_b64 x =
     (if x = ''UG9zdCB5b3VyIGFuc3dlciB0byBodHRwczovL2hvc3QuZXhhbXBsZS9zdWJtaXQ=''
      then Some ''Post your answer to https://host.example/submit''
      else if x = ''QW5zd2VyIGlzIDQy'' then Some ''Answer is 42''
      else None)"

definition sample_solver :: solver where
  "sample_solver = \<lparr>email = ''student@example.com'', secret = ''s3cret'', timeout_seconds = 180\<rparr>"

definition sample_config :: config where
  "sample_config = \<lparr>SECRET = ''s3cret'', EMAIL = ''student@example.com''\<rparr>"

definition sample_url :: string where
  "sample_url = ''https://host.example/q/1''"

definition sample_qd :: quiz_data where
  "sample_qd = \<lparr>question = ''Answer is 42'', submit_url = ''https://host.example/submit'',
                 url = ''https://host.example/q/1''\<rparr>"

definition sample_payload :: json where
  "sample_payload =
     JObj [(''email'', JStr ''student@example.com''), (''secret'', JStr ''s3cret''),
           (''url'', JStr ''https://host.example/q/1''), (''answer'', JInt 42)]"

text \<open>
  A server that answers every submission with the given outcome, behind a page that reads
  \<^verbatim>\<open>Answer is 42\<close>, a solver that answers 42 and a clock that stands at \<open>t\<close> seconds.
\<close>

definition sample_env :: "real \<Rightarrow> post_outcome \<Rightarrow> env" where
  "sample_env t outcome =
     \<lparr>solver_init = None,
      browser_launch = Launched,
      clock_elapsed = (\<lambda>n. t),
      page_goto = (\<lambda>n u. Rendered ''Answer is 42'' None),
      b64_utf8 = sample_b64,
      llm_solve = (\<lambda>n k qd. Inr (JInt 42)),
      http_post = (\<lambda>n k u payload. outcome),
      browser_close = None\<rparr>"

definition verdict_correct :: json where
  "verdict_correct = JObj [(''correct'', JBool True)]"

definition verdict_wrong :: json where
  "verdict_wrong = JObj [(''correct'', JBool False), (''reason'', JStr ''Wrong answer'')]"

definition verdict_wrong_next :: json where
  "verdict_wrong_next =
     JObj [(''correct'', JBool False), (''url'', JStr ''https://host.example/q/2''),
           (''reason'', JStr ''Wrong answer'')]"

definition verdict_wrong_null_url :: json where
  "verdict_wrong_null_url =
     JObj [(''correct'', JBool False), (''url'', JNull), (''reason'', JStr ''Wrong answer'')]"

definition verdict_unshaped :: json where
  "verdict_unshaped = JObj [(''message'', JStr ''ok'')]"

text \<open>What the session is left in when it ends: a raised exception or an error result.\<close>

definition is_failure :: "exc + dict \<Rightarrow> bool" where
  "is_failure outcome = (case outcome of Inl e \<Rightarrow> True | Inr d \<Rightarrow> map_of d ''error'' \<noteq> None)"

text \<open>The events that the first \<open>j\<close> attempts of a step add to the trace.\<close>

definition attempt_events :: "solver \<Rightarrow> json \<Rightarrow> quiz_data \<Rightarrow> (nat \<Rightarrow> json) \<Rightarrow> nat \<Rightarrow> event list" where
  "attempt_events sv current_url qd answer j =
     concat (map (\<lambda>k. [Solved qd, Submitted (submit_url qd) (make_payload sv current_url (answer k))])
               [0..<j])"


text \<open>The results \<^verbatim>\<open>solve_quiz\<close> can return.\<close>

definition session_results :: "dict set" where
  "session_results =
     {completed_result, timeout_result, parse_failure_result, no_submit_url_result}"

text \<open>A clock that advances by 100 seconds from one pass of the outer loop to the next.\<close>

definition ticking_env :: "post_outcome \<Rightarrow> env" where
  "ticking_env outcome = (sample_env 0 outcome)\<lparr>clock_elapsed := (\<lambda>n. 100 * real n)\<rparr>"


section \<open>Facts about the loops\<close>

lemma quiz_loop_done:
  "\<not> truthy u \<Longrightarrow> quiz_loop fuel sv env n u trace = Some (trace, Inr completed_result)"
  by (cases fuel) simp_all

lemma retry_loop_exit:
  "max_retries < rc \<Longrightarrow> retry_loop sv env n cu qd result rc trace = (trace, Inr (result, rc))"
  by (simp add: retry_loop.simps)

lemma retry_loop_correct:
  "rc \<le> max_retries \<Longrightarrow> attempt sv env n rc cu qd = (evs, Inr (JObj kvs)) \<Longrightarrow>
   truthy (dict_get kvs ''correct'') \<Longrightarrow>
   retry_loop sv env n cu qd result rc trace = (trace @ evs, Inr (JObj kvs, rc))"
  by (subst retry_loop.simps) simp

lemma retry_loop_moved:
  "rc \<le> max_retries \<Longrightarrow> attempt sv env n rc cu qd = (evs, Inr (JObj kvs)) \<Longrightarrow>
   \<not> truthy (dict_get kvs ''correct'') \<Longrightarrow> truthy (dict_get kvs ''url'') \<Longrightarrow>
   retry_loop sv env n cu qd result rc trace = (trace @ evs, Inr (JObj kvs, rc + 1))"
  by (subst retry_loop.simps) simp

lemma retry_loop_again:
  "rc \<le> max_retries \<Longrightarrow> attempt sv env n rc cu qd = (evs, Inr (JObj kvs)) \<Longrightarrow>
   \<not> truthy (dict_get kvs ''correct'') \<Longrightarrow> \<not> truthy (dict_get kvs ''url'') \<Longrightarrow>
   retry_loop sv env n cu qd result rc trace =
     retry_loop sv env n cu qd (JObj kvs) (rc + 1) (trace @ evs)"
  by (subst retry_loop.simps) simp

lemma attempt_answered:
  "llm_solve env n k qd = Inr answer \<Longrightarrow>
   attempt sv env n k cu qd =
     ([Solved qd, Submitted (submit_url qd) (make_payload sv cu answer)],
      Inr (submit_answer (http_post env n k (submit_url qd) (make_payload sv cu answer))))"
  by (simp add: attempt_def)

lemma attempt_events_Suc:
  "attempt_events sv cu qd answer (Suc j) =
     attempt_events sv cu qd answer j
       @ [Solved qd, Submitted (submit_url qd) (make_payload sv cu (answer j))]"
  by (simp add: attempt_events_def)

lemma retry_loop_failures:
  assumes "j \<le> Suc max_retries"
    and "\<forall>k<j. llm_solve env n k qd = Inr (answer k)"
    and "\<forall>k<j. submit_answer (http_post env n k (submit_url qd) (make_payload sv cu (answer k)))
                  = JObj (kvs k)"
    and "\<forall>k<j. \<not> truthy (dict_get (kvs k) ''correct'') \<and> \<not> truthy (dict_get (kvs k) ''url'')"
  shows "retry_loop sv env n cu qd result 0 trace =
           retry_loop sv env n cu qd (if j = 0 then result else JObj (kvs (j - 1))) j
             (trace @ attempt_events sv cu qd answer j)"
  using assms
proof (induction j)
  case 0
  then show ?case by (simp add: attempt_events_def)
next
  case (Suc j)
  have a: "attempt sv env n j cu qd =
      ([Solved qd, Submitted (submit_url qd) (make_payload sv cu (answer j))], Inr (JObj (kvs j)))"
    using Suc.prems(2,3) by (simp add: attempt_answered)
  have "retry_loop sv env n cu qd (if j = 0 then result else JObj (kvs (j - 1))) j
          (trace @ attempt_events sv cu qd answer j) =
        retry_loop sv env n cu qd (JObj (kvs j)) (j + 1)
          ((trace @ attempt_events sv cu qd answer j)
             @ [Solved qd, Submitted (submit_url qd) (make_payload sv cu (answer j))])"
    using Suc.prems(1,4) by (intro retry_loop_again[OF _ a]) simp_all
  then show ?case
    using Suc by (simp add: attempt_events_Suc)
qed


lemma handle_result_url:
  "truthy (dict_get kvs ''url'') \<Longrightarrow>
   handle_result (JObj kvs) = Inr (dict_get kvs ''url'')"
  by (simp add: handle_result_def)

lemma quiz_loop_advance:
  assumes "truthy current_url"
    and "\<not> clock_elapsed env n > real_of_int (timeout_seconds sv)"
    and "fetch_question env n current_url = Some qd"
    and "submit_url qd \<noteq> []"
    and "retry_loop sv env n current_url qd JNull 0 (trace @ [Navigated current_url]) =
           (trace', Inr (result, rc))"
    and "handle_result result = Inr next_url"
  shows "quiz_loop (Suc fuel) sv env n current_url trace =
           quiz_loop fuel sv env (Suc n) next_url trace'"
  using assms by simp


lemma quiz_loop_returns:
  assumes "clock_elapsed env N > real_of_int (timeout_seconds sv)"
  shows "n \<le> N \<Longrightarrow> N - n < fuel \<Longrightarrow>
         \<exists>tr out. quiz_loop fuel sv env n cu trace = Some (tr, out)
                  \<and> (case out of Inl e \<Rightarrow> True | Inr d \<Rightarrow> d \<in> session_results)"
proof (induction fuel arbitrary: n cu trace)
  case 0
  then show ?case by simp
next
  case (Suc fuel)
  show ?case
  proof (cases "\<not> truthy cu \<or> clock_elapsed env n > real_of_int (timeout_seconds sv)")
    case True
    then show ?thesis by (auto simp: session_results_def)
  next
    case False
    then have "n \<noteq> N" using assms by auto
    then have nN: "Suc n \<le> N" "N - Suc n < fuel" using Suc.prems by simp_all
    show ?thesis
    proof (cases "fetch_question env n cu")
      case None
      then show ?thesis using False by (simp add: session_results_def)
    next
      case (Some qd)
      show ?thesis
      proof (cases "submit_url qd = []")
        case True
        then show ?thesis using False Some by (simp add: session_results_def)
      next
        case nonempty: False
        obtain tr' r where rl: "retry_loop sv env n cu qd JNull 0 (trace @ [Navigated cu]) = (tr', r)"
          by (cases "retry_loop sv env n cu qd JNull 0 (trace @ [Navigated cu])") auto
        show ?thesis
        proof (cases r)
          case (Inl e)
          then show ?thesis using False Some nonempty rl by simp
        next
          case (Inr p)
          obtain result rc where p: "p = (result, rc)" by (cases p) auto
          show ?thesis
          proof (cases "handle_result result")
            case (Inl e)
            then show ?thesis using False Some nonempty rl Inr p by simp
          next
            case next_url: (Inr u)
            have "quiz_loop (Suc fuel) sv env n cu trace = quiz_loop fuel sv env (Suc n) u tr'"
              using False Some nonempty rl Inr p next_url by simp
            then show ?thesis using Suc.IH[OF nN, of u tr'] by simp
          qed
        qed
      qed
    qed
  qed
qed


lemma decode_loop_first:
  "i < length ps \<Longrightarrow> try_decode dec (ps ! i) raw = Some d \<Longrightarrow>
   \<forall>j<i. try_decode dec (ps ! j) raw = None \<Longrightarrow> decode_loop dec ps raw = d"
proof (induction ps arbitrary: i)
  case Nil
  then show ?case by simp
next
  case (Cons p ps)
  show ?case
  proof (cases i)
    case 0
    then show ?thesis using Cons.prems by simp
  next
    case (Suc k)
    have "try_decode dec p raw = None" using Cons.prems(3) Suc by auto
    moreover have "decode_loop dec ps raw = d"
      using Cons.prems Suc by (intro Cons.IH[of k]) auto
    ultimately show ?thesis by simp
  qed
qed

lemma decode_loop_none:
  "\<forall>p\<in>set ps. try_decode dec p raw = None \<Longrightarrow> decode_loop dec ps raw = raw"
  by (induction ps) simp_all


lemma greedy_splits_longest:
  "\<forall>x\<in>set xs. P x \<Longrightarrow> rest = [] \<or> \<not> P (hd rest) \<Longrightarrow>
   \<exists>others. greedy_splits P (xs @ rest) = rest # others"
proof (induction xs)
  case Nil
  then show ?case by (cases rest) auto
next
  case (Cons x xs)
  then obtain others where "greedy_splits P (xs @ rest) = rest # others" by auto
  then show ?case using Cons.prems by simp
qed

lemma take_off_rest:
  "take (length (a @ r) - length r) (a @ r) = a"
  by simp

lemma origin_group_run:
  assumes "host \<noteq> []" and "\<forall>x\<in>set host. not_slash x" and "rest = [] \<or> \<not> not_slash (hd rest)"
  shows "\<exists>others. run False [Plus not_slash, GClose] (host @ rest) mark []
           = (rest, [take (length mark - length rest) mark]) # others"
proof -
  obtain h hs where host: "host = h # hs" using assms(1) by (cases host) auto
  obtain others where g: "greedy_splits not_slash (hs @ rest) = rest # others"
    using greedy_splits_longest[of hs not_slash rest] assms(2,3) host by auto
  show ?thesis using assms(2) host g by simp
qed

lemma origin_match_at:
  assumes "scheme = ''http'' \<or> scheme = ''https''"
    and "host \<noteq> []" and "\<forall>x\<in>set host. not_slash x" and "rest = [] \<or> \<not> not_slash (hd rest)"
  shows "match_at False origin_pattern (scheme @ ''://'' @ host @ rest)
           = Some \<lparr>whole = scheme @ ''://'' @ host, groups = [scheme @ ''://'' @ host]\<rparr>"
proof -
  let ?url = "scheme @ ''://'' @ host @ rest"
  obtain others where r: "run False [Plus not_slash, GClose] (host @ rest) ?url []
           = (rest, [take (length ?url - length rest) ?url]) # others"
    using origin_group_run[OF assms(2-4)] by blast
  have t: "take (length ?url - length rest) ?url = scheme @ ''://'' @ host"
    using take_off_rest[of "scheme @ ''://'' @ host" rest] by (simp only: append_assoc)
  from assms(1) show ?thesis
  proof
    assume "scheme = ''http''"
    then show ?thesis
      using r t by (simp add: match_at_def origin_pattern_def chr_eq_def)
  next
    assume "scheme = ''https''"
    then show ?thesis
      using r t by (simp add: match_at_def origin_pattern_def chr_eq_def)
  qed
qed

lemma origin_search:
  assumes "scheme = ''http'' \<or> scheme = ''https''"
    and "host \<noteq> []" and "\<forall>x\<in>set host. not_slash x" and "rest = [] \<or> \<not> not_slash (hd rest)"
  shows "re_search False origin_pattern (scheme @ ''://'' @ host @ rest)
           = Some \<lparr>whole = scheme @ ''://'' @ host, groups = [scheme @ ''://'' @ host]\<rparr>"
proof -
  obtain c cs where u: "scheme @ ''://'' @ host @ rest = c # cs"
    using assms(1) by (cases "scheme @ ''://'' @ host @ rest") auto
  show ?thesis
    using origin_match_at[OF assms] unfolding u by simp
qed

text \<open>
  For a page URL that reads \<^verbatim>\<open>http://\<close> or \<^verbatim>\<open>https://\<close> in lower case, a host
  without a slash, and then nothing or a path that starts with a slash, the default submit
  URL is scheme and host followed by \<^verbatim>\<open>/submit\<close>.
\<close>

lemma default_submit_url_plain:
  assumes "scheme = ''http'' \<or> scheme = ''https''" and "host \<noteq> []"
    and "CHR ''/'' \<notin> set host" and "rest = [] \<or> starts_with ''/'' rest"
  shows "default_submit_url (scheme @ ''://'' @ host @ rest)
           = Inr (scheme @ ''://'' @ host @ ''/submit'')"
proof -
  have h: "\<forall>x\<in>set host. not_slash x" using assms(3) by (auto simp: not_slash_def)
  have r: "rest = [] \<or> \<not> not_slash (hd rest)"
    using assms(4) by (cases rest) (auto simp: not_slash_def)
  show ?thesis
    using origin_search[OF assms(1,2) h r] by (simp add: default_submit_url_def group_def)
qed

lemma run_keeps_groups:
  "GOpen \<notin> set p \<Longrightarrow> GClose \<notin> set p \<Longrightarrow> (r, cs) \<in> set (run ic p s mark caps) \<Longrightarrow> cs = caps"
proof (induction p arbitrary: s mark caps r cs)
  case Nil
  then show ?case by simp
next
  case (Cons a p)
  then show ?case
    by (cases a) (auto split: option.splits list.splits if_splits)
qed

lemma match_at_no_groups:
  assumes "GOpen \<notin> set p" and "GClose \<notin> set p" and "match_at ic p s = Some m"
  shows "groups m = []"
proof -
  obtain r caps rest where r: "run ic p s s [] = (r, caps) # rest" and m: "groups m = caps"
    using assms(3) by (auto simp: match_at_def split: list.splits)
  have "(r, caps) \<in> set (run ic p s s [])" using r by simp
  then show ?thesis using run_keeps_groups[OF assms(1,2)] m by blast
qed

lemma re_search_no_groups:
  "GOpen \<notin> set p \<Longrightarrow> GClose \<notin> set p \<Longrightarrow> re_search ic p s = Some m \<Longrightarrow> groups m = []"
  by (induction s) (auto simp: match_at_no_groups split: option.splits)

section \<open>A correct answer on the last question\<close>

text \<open>
  Claim C6. At any pass of the outer loop that starts within the time limit and extracts a
  question: when the first submission's verdict is a JSON object whose \<^verbatim>\<open>correct\<close> is
  true and which carries no next URL, the session ends with the completed result, and
  the step made exactly one solve and one submission.
\<close>

theorem first_correct_verdict_completes:
  assumes "truthy current_url"
    and "\<not> clock_elapsed env n > real_of_int (timeout_seconds sv)"
    and "fetch_question env n current_url = Some qd"
    and "submit_url qd \<noteq> []"
    and "llm_solve env n 0 qd = Inr answer"
    and "submit_answer (http_post env n 0 (submit_url qd) (make_payload sv current_url answer)) = JObj kvs"
    and "truthy (dict_get kvs ''correct'')"
    and "\<not> truthy (dict_get kvs ''url'')"
  shows "quiz_loop (Suc fuel) sv env n current_url trace =
           Some (trace @ [Navigated current_url, Solved qd,
                          Submitted (submit_url qd) (make_payload sv current_url answer)],
                 Inr completed_result)"
proof -
  have a: "attempt sv env n 0 current_url qd =
      ([Solved qd, Submitted (submit_url qd) (make_payload sv current_url answer)], Inr (JObj kvs))"
    using assms(5,6) by (simp add: attempt_answered)
  have r: "retry_loop sv env n current_url qd JNull 0 (trace @ [Navigated current_url]) =
      ((trace @ [Navigated current_url]) @ [Solved qd, Submitted (submit_url qd) (make_payload sv current_url answer)],
       Inr (JObj kvs, 0))"
    by (rule retry_loop_correct[OF _ a assms(7)]) simp
  have h: "handle_result (JObj kvs) = Inr (dict_get kvs ''url'')"
    using assms(7) by (simp add: handle_result_def)
  show ?thesis
    using assms(1-4,8) by (simp add: r h quiz_loop_done)
qed

theorem first_correct_verdict_completes_witness:
  "quiz_loop (Suc 0) sample_solver (sample_env 0 (Response (Some verdict_correct) (Inr ''{}''))) 0
     (JStr sample_url) [] =
   Some ([Navigated (JStr sample_url), Solved sample_qd,
          Submitted ''https://host.example/submit'' sample_payload], Inr completed_result)"
proof -
  let ?env = "sample_env 0 (Response (Some verdict_correct) (Inr ''{}''))"
  have h1: "truthy (JStr sample_url)" by code_simp
  have h2: "\<not> clock_elapsed ?env 0 > real_of_int (timeout_seconds sample_solver)" by code_simp
  have h3: "fetch_question ?env 0 (JStr sample_url) = Some sample_qd" by code_simp
  have h4: "submit_url sample_qd \<noteq> []" by code_simp
  have h5: "llm_solve ?env 0 0 sample_qd = Inr (JInt 42)" by code_simp
  have h6: "submit_answer (http_post ?env 0 0 (submit_url sample_qd)
              (make_payload sample_solver (JStr sample_url) (JInt 42))) = JObj [(''correct'', JBool True)]"
    by code_simp
  have h7: "truthy (dict_get [(''correct'', JBool True)] ''correct'')" by code_simp
  have h8: "\<not> truthy (dict_get [(''correct'', JBool True)] ''url'')" by code_simp
  have p: "make_payload sample_solver (JStr sample_url) (JInt 42) = sample_payload" by code_simp
  have s: "submit_url sample_qd = ''https://host.example/submit''" by code_simp
  show ?thesis
    using first_correct_verdict_completes[OF h1 h2 h3 h4 h5 h6 h7 h8, of 0 "[]"]
    unfolding p s by simp
qed

section \<open>Retries run out\<close>

text \<open>
  Claim C1, as the code has it. At any pass of the outer loop that starts within the time
  limit and extracts a question: when the verdicts of the attempts 0, 1 and 2 (the first
  \<open>max_retries + 1\<close>) are JSON objects whose \<^verbatim>\<open>correct\<close> is false and which carry no
  next URL, the step makes exactly these three solve and submit attempts and no fourth,
  and the session ends with the same completed result as after a correct answer.
\<close>

theorem exhausted_retries_complete:
  assumes "truthy current_url"
    and "\<not> clock_elapsed env n > real_of_int (timeout_seconds sv)"
    and "fetch_question env n current_url = Some qd"
    and "submit_url qd \<noteq> []"
    and "\<forall>k\<le>max_retries. llm_solve env n k qd = Inr (answer k)"
    and "\<forall>k\<le>max_retries.
           submit_answer (http_post env n k (submit_url qd) (make_payload sv current_url (answer k)))
             = JObj (kvs k)"
    and "\<forall>k\<le>max_retries.
           \<not> truthy (dict_get (kvs k) ''correct'') \<and> \<not> truthy (dict_get (kvs k) ''url'')"
  shows "quiz_loop (Suc fuel) sv env n current_url trace =
           Some (trace @ [Navigated current_url,
                   Solved qd, Submitted (submit_url qd) (make_payload sv current_url (answer 0)),
                   Solved qd, Submitted (submit_url qd) (make_payload sv current_url (answer 1)),
                   Solved qd, Submitted (submit_url qd) (make_payload sv current_url (answer 2))],
                 Inr completed_result)"
proof -
  have r: "retry_loop sv env n current_url qd JNull 0 (trace @ [Navigated current_url]) =
        retry_loop sv env n current_url qd (JObj (kvs 2)) 3
          ((trace @ [Navigated current_url]) @ attempt_events sv current_url qd answer 3)"
    using retry_loop_failures[of 3 env n qd answer sv current_url kvs JNull
            "trace @ [Navigated current_url]"] assms(5-7)
    by (simp add: max_retries_def)
  have e: "attempt_events sv current_url qd answer 3 =
      [Solved qd, Submitted (submit_url qd) (make_payload sv current_url (answer 0)),
       Solved qd, Submitted (submit_url qd) (make_payload sv current_url (answer 1)),
       Solved qd, Submitted (submit_url qd) (make_payload sv current_url (answer 2))]"
    by (simp add: attempt_events_def upt_rec numeral_eq_Suc)
  have w: "\<not> truthy (dict_get (kvs 2) ''correct'')" "\<not> truthy (dict_get (kvs 2) ''url'')"
    using assms(7) by (simp_all add: max_retries_def)
  have h: "handle_result (JObj (kvs 2)) = Inr JNull"
    using w by (simp add: handle_result_def)
  have rl: "retry_loop sv env n current_url qd JNull 0 (trace @ [Navigated current_url]) =
      (trace @ [Navigated current_url,
         Solved qd, Submitted (submit_url qd) (make_payload sv current_url (answer 0)),
         Solved qd, Submitted (submit_url qd) (make_payload sv current_url (answer 1)),
         Solved qd, Submitted (submit_url qd) (make_payload sv current_url (answer 2))],
       Inr (JObj (kvs 2), 3))"
    unfolding r e by (simp add: retry_loop_exit max_retries_def)
  show ?thesis
    using assms(1-4) by (simp add: rl h quiz_loop_done)
qed

theorem exhausted_retries_complete_witness:
  "quiz_loop (Suc 0) sample_solver (sample_env 0 (Response (Some verdict_wrong) (Inr ''{}''))) 0
     (JStr sample_url) [] =
   Some ([Navigated (JStr sample_url),
          Solved sample_qd, Submitted ''https://host.example/submit'' sample_payload,
          Solved sample_qd, Submitted ''https://host.example/submit'' sample_payload,
          Solved sample_qd, Submitted ''https://host.example/submit'' sample_payload],
         Inr completed_result)"
proof -
  let ?env = "sample_env 0 (Response (Some verdict_wrong) (Inr ''{}''))"
  let ?kvs = "\<lambda>k::nat. [(''correct'', JBool False), (''reason'', JStr ''Wrong answer'')]"
  have h1: "truthy (JStr sample_url)" by code_simp
  have h2: "\<not> clock_elapsed ?env 0 > real_of_int (timeout_seconds sample_solver)" by code_simp
  have h3: "fetch_question ?env 0 (JStr sample_url) = Some sample_qd" by code_simp
  have h4: "submit_url sample_qd \<noteq> []" by code_simp
  have h5: "\<forall>k\<le>max_retries. llm_solve ?env 0 k sample_qd = Inr ((\<lambda>k. JInt 42) k)"
    by (simp add: sample_env_def)
  have h6: "\<forall>k\<le>max_retries.
      submit_answer (http_post ?env 0 k (submit_url sample_qd)
        (make_payload sample_solver (JStr sample_url) ((\<lambda>k. JInt 42) k))) = JObj (?kvs k)"
    by (simp add: sample_env_def submit_answer_def verdict_wrong_def)
  have h7: "\<forall>k\<le>max_retries.
      \<not> truthy (dict_get (?kvs k) ''correct'') \<and> \<not> truthy (dict_get (?kvs k) ''url'')"
    by (simp add: dict_get_def)
  have p: "make_payload sample_solver (JStr sample_url) (JInt 42) = sample_payload" by code_simp
  have s: "submit_url sample_qd = ''https://host.example/submit''" by code_simp
  show ?thesis
    using exhausted_retries_complete[OF h1 h2 h3 h4 h5 h6 h7, of 0 "[]"]
    unfolding p s by simp
qed

text \<open>
  The claim as the specification states it fails: after three wrong verdicts the session's
  result is not a failure.
\<close>

theorem exhausted_retries_not_failure:
  "solve_quiz (Suc 0) sample_solver (sample_env 0 (Response (Some verdict_wrong) (Inr ''{}'')))
     sample_url =
   Some ([Navigated (JStr sample_url),
          Solved sample_qd, Submitted ''https://host.example/submit'' sample_payload,
          Solved sample_qd, Submitted ''https://host.example/submit'' sample_payload,
          Solved sample_qd, Submitted ''https://host.example/submit'' sample_payload],
         Inr completed_result)
   \<and> \<not> is_failure (Inr completed_result)"
  by code_simp

section \<open>A verdict that carries a next URL\<close>

text \<open>
  Claim C3, as the code has it. When the verdict of an attempt is a JSON object that
  carries a next URL (a true value under \<^verbatim>\<open>url\<close>), whatever its \<^verbatim>\<open>correct\<close>, the
  inner loop ends at this attempt, and the block after it sets \<^verbatim>\<open>current_url\<close> to that
  URL, with which the outer loop goes on to its next pass. The retry counter keeps its
  value when \<^verbatim>\<open>correct\<close> is true and is one more when it is false; the next pass starts
  its own counter at 0. The last part is for a verdict of the first attempt.
\<close>

theorem next_url_advances:
  assumes "rc \<le> max_retries"
    and "llm_solve env n rc qd = Inr answer"
    and "submit_answer (http_post env n rc (submit_url qd) (make_payload sv current_url answer))
           = JObj kvs"
    and "truthy (dict_get kvs ''url'')"
  shows "retry_loop sv env n current_url qd result rc trace =
           (trace @ [Solved qd, Submitted (submit_url qd) (make_payload sv current_url answer)],
            Inr (JObj kvs, if truthy (dict_get kvs ''correct'') then rc else rc + 1))
         \<and> handle_result (JObj kvs) = Inr (dict_get kvs ''url'')
         \<and> (rc = 0 \<and> truthy current_url
              \<and> \<not> clock_elapsed env n > real_of_int (timeout_seconds sv)
              \<and> fetch_question env n current_url = Some qd \<and> submit_url qd \<noteq> []
            \<longrightarrow> quiz_loop (Suc fuel) sv env n current_url trace0 =
                  quiz_loop fuel sv env (Suc n) (dict_get kvs ''url'')
                    (trace0 @ [Navigated current_url, Solved qd,
                       Submitted (submit_url qd) (make_payload sv current_url answer)]))"
proof -
  have a: "attempt sv env n rc current_url qd =
      ([Solved qd, Submitted (submit_url qd) (make_payload sv current_url answer)], Inr (JObj kvs))"
    using assms(2,3) by (simp add: attempt_answered)
  have r: "retry_loop sv env n current_url qd res rc tr =
           (tr @ [Solved qd, Submitted (submit_url qd) (make_payload sv current_url answer)],
            Inr (JObj kvs, if truthy (dict_get kvs ''correct'') then rc else rc + 1))"
    for res tr
  proof (cases "truthy (dict_get kvs ''correct'')")
    case True
    then show ?thesis using retry_loop_correct[OF assms(1) a True] by simp
  next
    case False
    then show ?thesis using retry_loop_moved[OF assms(1) a False assms(4)] by simp
  qed
  have h: "handle_result (JObj kvs) = Inr (dict_get kvs ''url'')"
    by (rule handle_result_url[OF assms(4)])
  have q: "quiz_loop (Suc fuel) sv env n current_url trace0 =
                  quiz_loop fuel sv env (Suc n) (dict_get kvs ''url'')
                    (trace0 @ [Navigated current_url, Solved qd,
                       Submitted (submit_url qd) (make_payload sv current_url answer)])"
    if "rc = 0" "truthy current_url" "\<not> clock_elapsed env n > real_of_int (timeout_seconds sv)"
      "fetch_question env n current_url = Some qd" "submit_url qd \<noteq> []"
  proof -
    have rr: "retry_loop sv env n current_url qd JNull 0 (trace0 @ [Navigated current_url]) =
        ((trace0 @ [Navigated current_url])
           @ [Solved qd, Submitted (submit_url qd) (make_payload sv current_url answer)],
         Inr (JObj kvs, if truthy (dict_get kvs ''correct'') then rc else rc + 1))"
      using r[of JNull "trace0 @ [Navigated current_url]"] that(1) by simp
    show ?thesis
      using quiz_loop_advance[OF that(2-5) rr h] by simp
  qed
  show ?thesis using r h q by blast
qed

theorem next_url_advances_witness:
  "retry_loop sample_solver (sample_env 0 (Response (Some verdict_wrong_next) (Inr ''{}''))) 0
     (JStr sample_url) sample_qd JNull 0 [] =
     ([Solved sample_qd, Submitted ''https://host.example/submit'' sample_payload],
      Inr (verdict_wrong_next, 1))
   \<and> handle_result verdict_wrong_next = Inr (JStr ''https://host.example/q/2'')
   \<and> quiz_loop (Suc (Suc 0)) sample_solver
        (sample_env 0 (Response (Some verdict_wrong_next) (Inr ''{}''))) 0 (JStr sample_url) [] =
      quiz_loop (Suc 0) sample_solver
        (sample_env 0 (Response (Some verdict_wrong_next) (Inr ''{}''))) 1
        (JStr ''https://host.example/q/2'')
        [Navigated (JStr sample_url), Solved sample_qd,
         Submitted ''https://host.example/submit'' sample_payload]"
proof -
  let ?env = "sample_env 0 (Response (Some verdict_wrong_next) (Inr ''{}''))"
  let ?kvs = "[(''correct'', JBool False), (''url'', JStr ''https://host.example/q/2''),
               (''reason'', JStr ''Wrong answer'')]"
  have h1: "(0::nat) \<le> max_retries" by simp
  have h2: "llm_solve ?env 0 0 sample_qd = Inr (JInt 42)" by code_simp
  have h3: "submit_answer (http_post ?env 0 0 (submit_url sample_qd)
              (make_payload sample_solver (JStr sample_url) (JInt 42))) = JObj ?kvs"
    by code_simp
  have h4: "truthy (dict_get ?kvs ''url'')" by code_simp
  have g1: "truthy (JStr sample_url)" by code_simp
  have g2: "\<not> clock_elapsed ?env 0 > real_of_int (timeout_seconds sample_solver)" by code_simp
  have g3: "fetch_question ?env 0 (JStr sample_url) = Some sample_qd" by code_simp
  have g4: "submit_url sample_qd \<noteq> []" by code_simp
  have p: "make_payload sample_solver (JStr sample_url) (JInt 42) = sample_payload" by code_simp
  have s: "submit_url sample_qd = ''https://host.example/submit''" by code_simp
  have c: "\<not> truthy (dict_get ?kvs ''correct'')" by code_simp
  have u: "dict_get ?kvs ''url'' = JStr ''https://host.example/q/2''" by code_simp
  have v: "JObj ?kvs = verdict_wrong_next" by (simp add: verdict_wrong_next_def)
  show ?thesis
    using next_url_advances[OF h1 h2 h3 h4, of JNull "[]" "Suc 0" "[]"] g1 g2 g3 g4 c
    unfolding p s u v by simp
qed

text \<open>
  The claim as the specification states it fails on the counter: a wrong verdict with a
  next URL leaves the inner loop with the counter at 1, not at 0.
\<close>

theorem next_url_counter_incremented:
  "retry_loop sample_solver (sample_env 0 (Response (Some verdict_wrong_next) (Inr ''{}''))) 0
     (JStr sample_url) sample_qd JNull 0 [] =
     ([Solved sample_qd, Submitted ''https://host.example/submit'' sample_payload],
      Inr (verdict_wrong_next, Suc 0))
   \<and> py_get verdict_wrong_next ''url'' = Inr (JStr ''https://host.example/q/2'')"
  by code_simp

section \<open>A verdict without the expected shape\<close>

text \<open>
  Claim C10, as the code has it. A response that parses as a JSON object whose
  \<^verbatim>\<open>correct\<close> is absent (it reads as \<^verbatim>\<open>None\<close>) or false is returned by the submitter
  as it is, and the attempt counts as incorrect: when the object's \<^verbatim>\<open>url\<close> is absent or
  false as a truth value (\<^verbatim>\<open>null\<close>, an empty string), the loop goes on to the next attempt
  with the counter one higher; when it is a true value the loop ends and \<^verbatim>\<open>current_url\<close>
  becomes that value. No branch raises.
\<close>

theorem unshaped_verdict_is_incorrect:
  assumes "\<not> truthy (dict_get kvs ''correct'')"
    and "rc \<le> max_retries"
    and "llm_solve env n rc qd = Inr answer"
    and "http_post env n rc (submit_url qd) (make_payload sv current_url answer)
           = Response (Some (JObj kvs)) body"
  shows "submit_answer (Response (Some (JObj kvs)) body) = JObj kvs
         \<and> (\<not> truthy (dict_get kvs ''url'') \<longrightarrow>
              retry_loop sv env n current_url qd result rc trace =
                retry_loop sv env n current_url qd (JObj kvs) (rc + 1)
                  (trace @ [Solved qd,
                            Submitted (submit_url qd) (make_payload sv current_url answer)]))
         \<and> (truthy (dict_get kvs ''url'') \<longrightarrow>
              retry_loop sv env n current_url qd result rc trace =
                (trace @ [Solved qd,
                          Submitted (submit_url qd) (make_payload sv current_url answer)],
                 Inr (JObj kvs, rc + 1))
              \<and> handle_result (JObj kvs) = Inr (dict_get kvs ''url''))"
proof -
  have s: "submit_answer (Response (Some (JObj kvs)) body) = JObj kvs"
    by (simp add: submit_answer_def)
  have a: "attempt sv env n rc current_url qd =
      ([Solved qd, Submitted (submit_url qd) (make_payload sv current_url answer)], Inr (JObj kvs))"
    using assms(3,4) s by (simp add: attempt_answered)
  show ?thesis
    using s retry_loop_again[OF assms(2) a assms(1)] retry_loop_moved[OF assms(2) a assms(1)]
      handle_result_url[of kvs]
    by blast
qed

theorem unshaped_verdict_is_incorrect_witness:
  "submit_answer (Response (Some verdict_unshaped) (Inr ''{}'')) = verdict_unshaped
   \<and> retry_loop sample_solver (sample_env 0 (Response (Some verdict_unshaped) (Inr ''{}''))) 0
        (JStr sample_url) sample_qd JNull 0 [] =
      retry_loop sample_solver (sample_env 0 (Response (Some verdict_unshaped) (Inr ''{}''))) 0
        (JStr sample_url) sample_qd verdict_unshaped 1
        [Solved sample_qd, Submitted ''https://host.example/submit'' sample_payload]"
proof -
  let ?env = "sample_env 0 (Response (Some verdict_unshaped) (Inr ''{}''))"
  let ?kvs = "[(''message'', JStr ''ok'')]"
  have h1: "\<not> truthy (dict_get ?kvs ''correct'')" by code_simp
  have h2: "(0::nat) \<le> max_retries" by simp
  have h3: "llm_solve ?env 0 0 sample_qd = Inr (JInt 42)" by code_simp
  have h4: "http_post ?env 0 0 (submit_url sample_qd)
              (make_payload sample_solver (JStr sample_url) (JInt 42))
            = Response (Some (JObj ?kvs)) (Inr ''{}'')"
    by code_simp
  have u: "\<not> truthy (dict_get ?kvs ''url'')" by code_simp
  have p: "make_payload sample_solver (JStr sample_url) (JInt 42) = sample_payload" by code_simp
  have s: "submit_url sample_qd = ''https://host.example/submit''" by code_simp
  have v: "JObj ?kvs = verdict_unshaped" by (simp add: verdict_unshaped_def)
  show ?thesis
    using unshaped_verdict_is_incorrect[OF h1 h2 h3 h4, of JNull "[]"] u
    unfolding p s v by simp
qed

text \<open>
  The claim as stated fails for an object that has a \<^verbatim>\<open>url\<close> field holding \<^verbatim>\<open>null\<close>:
  the orchestrator does not advance to it but retries, three attempts in all on the one
  page.
\<close>

theorem null_url_is_retried:
  "map_of [(''correct'', JBool False), (''url'', JNull), (''reason'', JStr ''Wrong answer'')] ''url''
     = Some JNull
   \<and> solve_quiz (Suc 0) sample_solver
        (sample_env 0 (Response (Some verdict_wrong_null_url) (Inr ''{}''))) sample_url =
      Some ([Navigated (JStr sample_url),
             Solved sample_qd, Submitted ''https://host.example/submit'' sample_payload,
             Solved sample_qd, Submitted ''https://host.example/submit'' sample_payload,
             Solved sample_qd, Submitted ''https://host.example/submit'' sample_payload],
            Inr completed_result)"
  by code_simp

section \<open>The deadline\<close>

text \<open>
  Claim C4, as the code has it. At the check that opens every pass of the outer loop,
  the first one too: when the elapsed time is more than the timeout (180 seconds in the
  endpoint's solver), the session ends there with the timeout result and the trace gets
  no further event, so nothing more is navigated to.
\<close>

theorem deadline_passed_no_navigation:
  assumes "truthy current_url"
    and "clock_elapsed env n > real_of_int (timeout_seconds sv)"
  shows "quiz_loop (Suc fuel) sv env n current_url trace = Some (trace, Inr timeout_result)"
  using assms by simp

theorem deadline_passed_no_navigation_witness:
  "quiz_loop (Suc 0) sample_solver (sample_env 181 (Response (Some verdict_correct) (Inr ''{}''))) 0
     (JStr sample_url) [] = Some ([], Inr timeout_result)"
proof -
  let ?env = "sample_env 181 (Response (Some verdict_correct) (Inr ''{}''))"
  have h1: "truthy (JStr sample_url)" by code_simp
  have h2: "clock_elapsed ?env 0 > real_of_int (timeout_seconds sample_solver)"
    by (simp add: sample_env_def sample_solver_def)
  show ?thesis by (rule deadline_passed_no_navigation[OF h1 h2])
qed

text \<open>
  With \<open>\<ge>\<close> the claim fails: at exactly 180 seconds the check lets the session go on, which
  here navigates, submits and completes.
\<close>

theorem deadline_reached_still_navigates:
  "solve_quiz (Suc 0) sample_solver (sample_env 180 (Response (Some verdict_correct) (Inr ''{}'')))
     sample_url =
   Some ([Navigated (JStr sample_url), Solved sample_qd,
          Submitted ''https://host.example/submit'' sample_payload], Inr completed_result)
   \<and> real_of_int (timeout_seconds sample_solver) = 180"
  by code_simp

section \<open>What the caller of the endpoint receives\<close>

text \<open>
  Claim C5, as the code has it. After the secret and the email are accepted: when
  constructing the solver raises, the caller receives status 500 with the detail
  \<^verbatim>\<open>Internal server error\<close>. Otherwise, when the clock passes 180 seconds at some pass
  \<open>N\<close> of the loop, the session ends within \<open>N + 1\<close> passes and the caller receives
  status 200 with the result \<^verbatim>\<open>solve_quiz\<close> returned, which is the completed result or
  one of its three error results (timeout, parse failure, no submit URL), or status 500
  with \<^verbatim>\<open>error\<close> and \<^verbatim>\<open>reason\<close> when \<^verbatim>\<open>solve_quiz\<close> raised.
\<close>

theorem handle_quiz_responses:
  assumes "req_secret = SECRET cfg"
    and "req_email = EMAIL cfg"
    and "clock_elapsed env N > real_of_int TIMEOUT_SECONDS"
    and "N < fuel"
  shows "case solver_init env of
           Some x \<Rightarrow>
             handle_quiz fuel cfg env (QuizRequest req_email req_secret req_url)
               = Some (HTTPException 500 ''Internal server error'')
         | None \<Rightarrow>
             (\<exists>tr out.
                solve_quiz fuel
                  \<lparr>email = req_email, secret = req_secret, timeout_seconds = TIMEOUT_SECONDS\<rparr>
                  env req_url = Some (tr, out)
                \<and> (case out of
                     Inr d \<Rightarrow>
                       d \<in> session_results
                       \<and> handle_quiz fuel cfg env (QuizRequest req_email req_secret req_url)
                           = Some (JSONResponse d 200)
                   | Inl e \<Rightarrow>
                       handle_quiz fuel cfg env (QuizRequest req_email req_secret req_url)
                         = Some (JSONResponse
                                   [(''error'', ''Failed to solve quiz''), (''reason'', exc_str e)]
                                   500)))"
proof (cases "solver_init env")
  case (Some x)
  then show ?thesis using assms(1,2) by (simp add: handle_quiz_def)
next
  case None
  let ?sv = "\<lparr>email = req_email, secret = req_secret, timeout_seconds = TIMEOUT_SECONDS\<rparr>"
  have c: "clock_elapsed env N > real_of_int (timeout_seconds ?sv)"
    using assms(3) by simp
  obtain tr out where q: "quiz_loop fuel ?sv env 0 (JStr req_url) [] = Some (tr, out)"
    and o: "case out of Inl e \<Rightarrow> True | Inr d \<Rightarrow> d \<in> session_results"
    using quiz_loop_returns[OF c, of 0 fuel "JStr req_url" "[]"] assms(4) by auto
  show ?thesis
    using q o assms(1,2) None
    by (auto simp: solve_quiz_def handle_quiz_def split: launch_outcome.splits option.splits sum.splits)
qed

theorem handle_quiz_responses_witness:
  "handle_quiz 3 sample_config
     ((ticking_env (Response (Some verdict_wrong_next) (Inr ''{}'')))
        \<lparr>solver_init := Some (OtherException ''The api_key client option must be set'')\<rparr>)
     (QuizRequest ''student@example.com'' ''s3cret'' sample_url)
     = Some (HTTPException 500 ''Internal server error'')
   \<and> (\<exists>tr out.
     solve_quiz 3 \<lparr>email = ''student@example.com'', secret = ''s3cret'',
                   timeout_seconds = TIMEOUT_SECONDS\<rparr>
       (ticking_env (Response (Some verdict_wrong_next) (Inr ''{}''))) sample_url = Some (tr, out)
     \<and> (case out of
          Inr d \<Rightarrow>
            d \<in> session_results
            \<and> handle_quiz 3 sample_config (ticking_env (Response (Some verdict_wrong_next) (Inr ''{}'')))
                (QuizRequest ''student@example.com'' ''s3cret'' sample_url)
                = Some (JSONResponse d 200)
        | Inl e \<Rightarrow>
            handle_quiz 3 sample_config (ticking_env (Response (Some verdict_wrong_next) (Inr ''{}'')))
              (QuizRequest ''student@example.com'' ''s3cret'' sample_url)
              = Some (JSONResponse
                        [(''error'', ''Failed to solve quiz''), (''reason'', exc_str e)] 500)))"
proof -
  let ?env = "ticking_env (Response (Some verdict_wrong_next) (Inr ''{}''))"
  let ?bad = "?env\<lparr>solver_init := Some (OtherException ''The api_key client option must be set'')\<rparr>"
  have h1: "''s3cret'' = SECRET sample_config" by (simp add: sample_config_def)
  have h2: "''student@example.com'' = EMAIL sample_config" by (simp add: sample_config_def)
  have h3: "clock_elapsed ?env 2 > real_of_int TIMEOUT_SECONDS"
    by (simp add: ticking_env_def TIMEOUT_SECONDS_def)
  have h3': "clock_elapsed ?bad 2 > real_of_int TIMEOUT_SECONDS"
    by (simp add: ticking_env_def TIMEOUT_SECONDS_def)
  have h4: "(2::nat) < 3" by simp
  have n: "solver_init ?env = None" by (simp add: ticking_env_def sample_env_def)
  have b: "solver_init ?bad = Some (OtherException ''The api_key client option must be set'')"
    by simp
  show ?thesis
    using handle_quiz_responses[OF h1 h2 h3 h4, of sample_url]
      handle_quiz_responses[OF h1 h2 h3' h4, of sample_url]
    unfolding n b by simp
qed

text \<open>
  The claim as the specification states it fails: a session that times out is answered
  with status 200, its error result as the body.
\<close>

theorem timeout_answered_with_200:
  "handle_quiz (Suc 0) sample_config (sample_env 181 (Response (Some verdict_correct) (Inr ''{}'')))
     (QuizRequest ''student@example.com'' ''s3cret'' sample_url) =
   Some (JSONResponse
           [(''error'', ''Timeout exceeded''),
            (''reason'', ''Quiz solving took longer than 3 minutes'')] 200)"
  by (simp add: handle_quiz_def solve_quiz_def sample_config_def sample_env_def
        TIMEOUT_SECONDS_def timeout_result_def sample_url_def)

section \<open>Submission never raises\<close>




section \<open>Decoding an embedded payload\<close>

text \<open>
  Claim C8. For a page whose content signals an encoded payload (it contains \<^verbatim>\<open>atob\<close>
  or, in any case of the letters, \<^verbatim>\<open>base64\<close>): when a pattern matches and decodes and
  no pattern before it does, the extractor goes on with the text that pattern decoded, so
  its result is the one the second half of the extraction gives for that text, and the
  question of a quiz it returns is that text. When none of the three patterns matches and
  decodes, the extractor goes on with the raw content as it was, so its result is the one
  the second half gives for the raw content, with the raw content as the question: a
  failed decoding by itself never makes the extraction fail.
\<close>

theorem first_decodable_candidate_wins:
  assumes "page_content load = Some raw"
    and "contains ''atob'' raw \<or> contains ''base64'' (lower raw)"
  shows "(\<forall>i d. i < length decode_patterns
               \<and> try_decode dec (decode_patterns ! i) raw = Some d
               \<and> (\<forall>j<i. try_decode dec (decode_patterns ! j) raw = None)
             \<longrightarrow> decode_content dec raw = d
                 \<and> get_quiz_question dec load page_url = extract_from d page_url
                 \<and> (\<forall>qd. get_quiz_question dec load page_url = Some qd \<longrightarrow> question qd = d))
         \<and> ((\<forall>p\<in>set decode_patterns. try_decode dec p raw = None)
             \<longrightarrow> decode_content dec raw = raw
                 \<and> get_quiz_question dec load page_url = extract_from raw page_url
                 \<and> (\<forall>qd. get_quiz_question dec load page_url = Some qd \<longrightarrow> question qd = raw))"
proof -
  have d: "decode_content dec raw = decode_loop dec decode_patterns raw"
    using assms(2) by (simp add: decode_content_def)
  have g: "get_quiz_question dec load page_url
             = extract_from (decode_loop dec decode_patterns raw) page_url"
    using assms(1) d by (simp add: get_quiz_question_def)
  have q: "question qd = c" if "extract_from c page_url = Some qd" for c qd
    using that by (auto simp: extract_from_def split: sum.splits)
  show ?thesis
    unfolding g d using q by (auto simp: decode_loop_first decode_loop_none)
qed

theorem first_decodable_candidate_wins_witness:
  "get_quiz_question sample_b64
     (Rendered (''atob('' @ [CHR 0x60] @ ''/w=='' @ [CHR 0x60] @ '') base64: QW5zd2VyIGlzIDQy'') None)
     sample_url
     = Some \<lparr>question = ''Answer is 42'', submit_url = ''https://host.example/submit'',
             url = ''https://host.example/q/1''\<rparr>
   \<and> get_quiz_question sample_b64 (Rendered ''The base64 payload is missing'' None) sample_url
     = Some \<lparr>question = ''The base64 payload is missing'',
             submit_url = ''https://host.example/submit'', url = ''https://host.example/q/1''\<rparr>"
proof -
  let ?raw1 = "''atob('' @ [CHR 0x60] @ ''/w=='' @ [CHR 0x60] @ '') base64: QW5zd2VyIGlzIDQy''"
  let ?raw2 = "''The base64 payload is missing''"
  have p1: "page_content (Rendered ?raw1 None) = Some ?raw1" by code_simp
  have p2: "page_content (Rendered ?raw2 None) = Some ?raw2" by code_simp
  have s1: "contains ''atob'' ?raw1 \<or> contains ''base64'' (lower ?raw1)" by code_simp
  have s2: "contains ''atob'' ?raw2 \<or> contains ''base64'' (lower ?raw2)" by code_simp
  have i: "(2::nat) < length decode_patterns" by code_simp
  have t2: "try_decode sample_b64 (decode_patterns ! 2) ?raw1 = Some ''Answer is 42''" by code_simp
  have t0: "try_decode sample_b64 (decode_patterns ! 0) ?raw1 = None" by code_simp
  have t1: "try_decode sample_b64 (decode_patterns ! 1) ?raw1 = None" by code_simp
  have tj: "\<forall>j<2. try_decode sample_b64 (decode_patterns ! j) ?raw1 = None"
  proof (intro allI impI)
    fix j :: nat assume "j < 2"
    then have "j = 0 \<or> j = 1" by auto
    then show "try_decode sample_b64 (decode_patterns ! j) ?raw1 = None" using t0 t1 by auto
  qed
  have n: "\<forall>p\<in>set decode_patterns. try_decode sample_b64 p ?raw2 = None" by code_simp
  have e1: "extract_from ''Answer is 42'' sample_url
      = Some \<lparr>question = ''Answer is 42'', submit_url = ''https://host.example/submit'',
              url = ''https://host.example/q/1''\<rparr>"
    by code_simp
  have e2: "extract_from ?raw2 sample_url
      = Some \<lparr>question = ?raw2, submit_url = ''https://host.example/submit'',
              url = ''https://host.example/q/1''\<rparr>"
    by code_simp
  have g1: "get_quiz_question sample_b64 (Rendered ?raw1 None) sample_url
              = extract_from ''Answer is 42'' sample_url"
    using first_decodable_candidate_wins[OF p1 s1, of sample_b64 sample_url] i t2 tj by blast
  have g2: "get_quiz_question sample_b64 (Rendered ?raw2 None) sample_url
              = extract_from ?raw2 sample_url"
    using first_decodable_candidate_wins[OF p2 s2, of sample_b64 sample_url] n by blast
  show ?thesis
    unfolding g1 g2 e1 e2 by simp
qed

section \<open>A page whose text holds the submit URL\<close>

text \<open>
  Claim C2 fails on the code. Whenever the first submit pattern, the URL ending in
  \<^verbatim>\<open>/submit\<close>, matches the content (decoded or raw), the extraction returns neither
  that URL nor the question: the pattern has no group, so \<^verbatim>\<open>lastindex\<close> is \<^verbatim>\<open>None\<close>,
  the test \<^verbatim>\<open>lastindex == 0\<close> is false and \<^verbatim>\<open>group(1)\<close> raises; the exception is
  caught and \<^verbatim>\<open>_get_quiz_question\<close> gives \<^verbatim>\<open>None\<close>.
\<close>

theorem matched_submit_url_is_lost:
  assumes "page_content load = Some raw"
    and "re_search True (submit_patterns ! 0) (decode_content dec raw) = Some m"
  shows "lastindex m = None
         \<and> find_submit_url submit_patterns (decode_content dec raw)
             = Inl (IndexError ''no such group'')
         \<and> get_quiz_question dec load page_url = None"
proof -
  have g: "groups m = []"
    using assms(2) by (intro re_search_no_groups[of _ True "decode_content dec raw"])
      (simp_all add: submit_patterns_def)
  have s: "re_search True
      [Lit ''http'', Opt (CHR ''s''), Lit ''://'', Plus url_char, Lit ''/submit'', Star url_char]
      (decode_content dec raw) = Some m"
    using assms(2) by (simp add: submit_patterns_def)
  have f: "find_submit_url submit_patterns (decode_content dec raw)
             = Inl (IndexError ''no such group'')"
    using g s by (simp add: submit_patterns_def lastindex_def group_def)
  show ?thesis
    using assms(1) f g by (simp add: get_quiz_question_def extract_from_def lastindex_def)
qed

text \<open>
  The page content \<^verbatim>\<open>base64: UG9z...\<close> decodes to
  \<^verbatim>\<open>Post your answer to https://host.example/submit\<close>; the session ends with the parse
  failure result.
\<close>

theorem matched_submit_url_is_lost_witness:
  "decode_content sample_b64
     ''base64: UG9zdCB5b3VyIGFuc3dlciB0byBodHRwczovL2hvc3QuZXhhbXBsZS9zdWJtaXQ=''
     = ''Post your answer to https://host.example/submit''
   \<and> re_search True (submit_patterns ! 0) ''Post your answer to https://host.example/submit''
     = Some \<lparr>whole = ''https://host.example/submit'', groups = []\<rparr>
   \<and> get_quiz_question sample_b64
       (Rendered ''base64: UG9zdCB5b3VyIGFuc3dlciB0byBodHRwczovL2hvc3QuZXhhbXBsZS9zdWJtaXQ='' None)
       sample_url = None
   \<and> solve_quiz (Suc 0) sample_solver
       ((sample_env 0 (Response (Some verdict_correct) (Inr ''{}'')))
          \<lparr>page_goto := (\<lambda>n u. Rendered
              ''base64: UG9zdCB5b3VyIGFuc3dlciB0byBodHRwczovL2hvc3QuZXhhbXBsZS9zdWJtaXQ='' None)\<rparr>)
       sample_url
     = Some ([Navigated (JStr sample_url)], Inr parse_failure_result)"
proof -
  let ?raw = "''base64: UG9zdCB5b3VyIGFuc3dlciB0byBodHRwczovL2hvc3QuZXhhbXBsZS9zdWJtaXQ=''"
  let ?m = "\<lparr>whole = ''https://host.example/submit'', groups = []\<rparr>"
  have d: "decode_content sample_b64 ?raw = ''Post your answer to https://host.example/submit''"
    by code_simp
  have h1: "page_content (Rendered ?raw None) = Some ?raw" by code_simp
  have m: "re_search True (submit_patterns ! 0) ''Post your answer to https://host.example/submit''
             = Some ?m"
    by code_simp
  have h2: "re_search True (submit_patterns ! 0) (decode_content sample_b64 ?raw) = Some ?m"
    unfolding d by (rule m)
  have q: "get_quiz_question sample_b64 (Rendered ?raw None) sample_url = None"
    using matched_submit_url_is_lost[OF h1 h2, of sample_url] by simp
  have s: "solve_quiz (Suc 0) sample_solver
       ((sample_env 0 (Response (Some verdict_correct) (Inr ''{}'')))
          \<lparr>page_goto := (\<lambda>n u. Rendered ?raw None)\<rparr>) sample_url
     = Some ([Navigated (JStr sample_url)], Inr parse_failure_result)"
    by code_simp
  show ?thesis using d m q s by simp
qed

section \<open>The default submit URL\<close>

text \<open>
  Claim C7 fails on the code. For content that no submit pattern matches, the submit URL
  is to be the origin of the page's URL followed by \<^verbatim>\<open>/submit\<close>, as the comment in the
  source says, and the literal fallback is for a URL that has no origin. The code searches
  the URL for \<^verbatim>\<open>http://\<close> or \<^verbatim>\<open>https://\<close> in lower case and takes what follows up
  to the first slash. For the content \<^verbatim>\<open>Answer is 42\<close>, which no pattern matches:
  \<^verbatim>\<open>https://host.example/q/1\<close> gets \<^verbatim>\<open>https://host.example/submit\<close>, but the
  well-formed URL \<^verbatim>\<open>HTTPS://host.example/q/1\<close> gets the literal fallback and not its
  origin, and \<^verbatim>\<open>https://host.example?page=1\<close> gets its query inside the submit URL.
\<close>

theorem default_submit_url_not_origin:
  "find_submit_url submit_patterns ''Answer is 42'' = Inr None
   \<and> map_option submit_url
       (get_quiz_question sample_b64 (Rendered ''Answer is 42'' None) ''https://host.example/q/1'')
     = Some ''https://host.example/submit''
   \<and> map_option submit_url
       (get_quiz_question sample_b64 (Rendered ''Answer is 42'' None) ''HTTPS://host.example/q/1'')
     = Some ''https://tds-llm-analysis.s-anand.net/submit''
   \<and> map_option submit_url
       (get_quiz_question sample_b64 (Rendered ''Answer is 42'' None) ''https://host.example?page=1'')
     = Some ''https://host.example?page=1/submit''"
  by code_simp

end
